theory Spec2Isabelle
  imports Main "HOL-Library.Option_ord"
begin

section \<open>Values, records and exceptions\<close>

text \<open>
  The accessor of \<^verbatim>\<open>src/data.py\<close> is a class \<^verbatim>\<open>FlightData\<close> around an SQLAlchemy engine.
  A Python string is a sequence of code points; a \<^typ>\<open>char\<close> stands for a code point
  below 256, so a \<^typ>\<open>string\<close> is a Python string over ISO 8859-1: the ASCII characters
  and the accented letters of the Latin-1 supplement.

  Python is untyped at the call, so a lookup can be handed any value. The model has the
  built-in ones, \<^verbatim>\<open>None\<close>, booleans, integers, strings, byte strings and lists, and the
  standard library's \<^verbatim>\<open>collections.UserString\<close>: an object that wraps a string, is not an
  instance of \<^verbatim>\<open>str\<close>, and defines \<^verbatim>\<open>__add__\<close> and \<^verbatim>\<open>__radd__\<close>.
\<close>

datatype pyval =
    PyNone
  | PyBool bool
  | PyInt int
  | PyStr string
  | PyBytes string
  | PyList "pyval list"
  | PyUserString string

text \<open>\<^verbatim>\<open>type(v).__name__\<close>, as the messages of \<^verbatim>\<open>TypeError\<close> print it.\<close>

fun type_name :: "pyval \<Rightarrow> string" where
  "type_name PyNone = ''NoneType''"
| "type_name (PyBool _) = ''bool''"
| "type_name (PyInt _) = ''int''"
| "type_name (PyStr _) = ''str''"
| "type_name (PyBytes _) = ''bytes''"
| "type_name (PyList _) = ''list''"
| "type_name (PyUserString _) = ''UserString''"

text \<open>A scalar of a result row: null, a number or a string.\<close>

datatype sqlval = SqlNull | SqlInt int | SqlText string

text \<open>A record is an ordered mapping from column name to scalar.\<close>

type_synonym row = "(string \<times> sqlval) list"

text \<open>The parameter dictionary handed to \<^verbatim>\<open>connection.execute\<close>.\<close>

type_synonym params = "(string \<times> pyval) list"

text \<open>
  Exceptions, by the classes the two \<^verbatim>\<open>except\<close> clauses tell apart:
  \<^verbatim>\<open>SQLAlchemyError\<close> (a subclass of \<^verbatim>\<open>Exception\<close>), \<^verbatim>\<open>TypeError\<close> (what \<^verbatim>\<open>+\<close> raises
  on operands it does not take), any other subclass of \<^verbatim>\<open>Exception\<close>, and the classes that derive from
  \<^verbatim>\<open>BaseException\<close> only (\<^verbatim>\<open>KeyboardInterrupt\<close>, \<^verbatim>\<open>SystemExit\<close>, \<^verbatim>\<open>GeneratorExit\<close>). Each
  carries its message.
\<close>

datatype exn =
    SQLAlchemyError string
  | TypeError string
  | OtherException string
  | BaseExceptionOnly string

fun is_SQLAlchemyError :: "exn \<Rightarrow> bool" where
  "is_SQLAlchemyError (SQLAlchemyError _) = True"
| "is_SQLAlchemyError _ = False"

fun is_Exception :: "exn \<Rightarrow> bool" where
  "is_Exception (BaseExceptionOnly _) = False"
| "is_Exception _ = True"

fun message :: "exn \<Rightarrow> string" where
  "message (SQLAlchemyError m) = m"
| "message (TypeError m) = m"
| "message (OtherException m) = m"
| "message (BaseExceptionOnly m) = m"

text \<open>
  Python's \<^verbatim>\<open>+\<close> with a string on the left, \<^verbatim>\<open>s + v\<close>. \<^verbatim>\<open>str.__add__\<close> takes a string
  only; for any other operand Python turns to the operand's \<^verbatim>\<open>__radd__\<close>, which
  \<^verbatim>\<open>UserString\<close> has and the built-in types lack, and then raises the \<^verbatim>\<open>TypeError\<close>
  of \<^verbatim>\<open>str\<close>.
\<close>

fun str_add :: "string \<Rightarrow> pyval \<Rightarrow> exn + pyval" where
  "str_add s (PyStr b) = Inr (PyStr (s @ b))"
| "str_add s (PyUserString b) = Inr (PyUserString (s @ b))"
| "str_add s v =
     Inl (TypeError (''can only concatenate str (not '' @ [CHR 0x22] @ type_name v @ [CHR 0x22] @
       '') to str''))"

text \<open>
  \<^verbatim>\<open>+\<close> with a string on the right, \<^verbatim>\<open>v + s\<close>: concatenation for a string and for a
  \<^verbatim>\<open>UserString\<close>, and the \<^verbatim>\<open>TypeError\<close> of the left operand's type otherwise.
\<close>

fun add_str :: "pyval \<Rightarrow> string \<Rightarrow> exn + pyval" where
  "add_str (PyStr a) s = Inr (PyStr (a @ s))"
| "add_str (PyUserString a) s = Inr (PyUserString (a @ s))"
| "add_str (PyBytes a) s = Inl (TypeError (''can'' @ [CHR 0x27] @ ''t concat str to bytes''))"
| "add_str (PyList a) s =
     Inl (TypeError (''can only concatenate list (not '' @ [CHR 0x22] @ ''str'' @ [CHR 0x22] @
       '') to list''))"
| "add_str v s =
     Inl (TypeError (''unsupported operand type(s) for +: '' @ [CHR 0x27] @ type_name v @
       [CHR 0x27] @ '' and '' @ [CHR 0x27] @ ''str'' @ [CHR 0x27]))"

section \<open>The backing schema\<close>

text \<open>
  Modelled from the spec: the backing schema, which the repository does not declare. The
  spec names the tables \<^verbatim>\<open>flights\<close> (ID, AIRLINE, ORIGIN_AIRPORT, DESTINATION_AIRPORT,
  DEPARTURE_DELAY, DAY, MONTH, YEAR) and \<^verbatim>\<open>airlines\<close> (ID, AIRLINE). The departure delay is
  nullable, which is what the \<^verbatim>\<open>COALESCE\<close> of the templates is for; the other columns hold
  a value. The fields carry the aliases \<^verbatim>\<open>f\<close> and \<^verbatim>\<open>a\<close> of the templates. No key or
  foreign-key constraint is declared anywhere in the repository, so a store is any two
  lists of rows.
\<close>

record flights_row =
  f_ID :: int
  f_AIRLINE :: int
  f_ORIGIN_AIRPORT :: string
  f_DESTINATION_AIRPORT :: string
  f_DEPARTURE_DELAY :: "int option"
  f_DAY :: int
  f_MONTH :: int
  f_YEAR :: int

record airlines_row =
  a_ID :: int
  a_AIRLINE :: string

record store =
  flights :: "flights_row list"
  airlines :: "airlines_row list"

section \<open>The query templates\<close>

text \<open>The six module-level SQL strings, character for character.\<close>

definition QUERY_FLIGHT_BY_ID :: string where
  "QUERY_FLIGHT_BY_ID =
     ''SELECT flights.*, airlines.airline, flights.ID as FLIGHT_ID, flights.DEPARTURE_DELAY '' @
     ''as DELAY FROM flights JOIN airlines ON flights.airline = airlines.id WHERE '' @
     ''flights.ID = :id''"

definition QUERY_FLIGHT_BY_DATE :: string where
  "QUERY_FLIGHT_BY_DATE =
     ''SELECT f.id, f.ORIGIN_AIRPORT, f.DESTINATION_AIRPORT, a.AIRLINE, f.DEPARTURE_DELAY '' @
     ''AS DELAY FROM airlines AS a JOIN flights AS f ON'' @
     [CHR 0x09] @
     ''a.ID = f.AIRLINE WHERE COALESCE(f.DEPARTURE_DELAY, 0) AND f.DAY = :day AND '' @
     ''f.MONTH = :month AND f.YEAR = :year AND f.DEPARTURE_DELAY >= 20 ORDER BY '' @
     ''DEPARTURE_DELAY DESC''"

definition QUERY_FLIGHT_BY_AIRLINE :: string where
  "QUERY_FLIGHT_BY_AIRLINE =
     ''SELECT f.id, f.ORIGIN_AIRPORT, f.DESTINATION_AIRPORT, a.AIRLINE, f.DEPARTURE_DELAY '' @
     ''AS DELAY FROM airlines AS a JOIN flights AS f ON a.ID = f.AIRLINE WHERE '' @
     ''COALESCE(f.DEPARTURE_DELAY, 0) AND f.DEPARTURE_DELAY >= 20 AND lower(a.AIRLINE) '' @
     ''LIKE lower(:airline) ORDER BY DEPARTURE_DELAY DESC''"

definition QUERY_FLIGHT_BY_ORIGIN_AIRPORT :: string where
  "QUERY_FLIGHT_BY_ORIGIN_AIRPORT =
     ''SELECT f.id, f.ORIGIN_AIRPORT, f.DESTINATION_AIRPORT, a.AIRLINE, f.DEPARTURE_DELAY '' @
     ''AS DELAY FROM airlines AS a JOIN flights AS f ON a.ID = f.AIRLINE WHERE '' @
     ''COALESCE(f.DEPARTURE_DELAY, 0) AND f.DEPARTURE_DELAY >= 20 AND f.ORIGIN_AIRPORT '' @
     ''= :origin_airport ORDER BY DEPARTURE_DELAY DESC''"

definition QUERY_AVG_PERCENTAGE_DELAYED_FLIGHTS :: string where
  "QUERY_AVG_PERCENTAGE_DELAYED_FLIGHTS =
     ''SELECT ORIGIN_AIRPORT, DESTINATION_AIRPORT, AVG(DELAYED_FLIGHTS * 100.0 '' @
     ''/ TOTAL_FLIGHTS) AS PERCENT_DELAYED FROM ( SELECT ORIGIN_AIRPORT, DESTINATION_AIRPORT, '' @
     ''COUNT(CASE WHEN DEPARTURE_DELAY >= 20 THEN 0 END) AS DELAYED_FLIGHTS, COUNT('' @
     [CHR 0x2A] @
     '') AS TOTAL_FLIGHTS FROM flights GROUP BY ORIGIN_AIRPORT, DESTINATION_AIRPORT '' @
     '') AS ROUTE_STATS WHERE (ORIGIN_AIRPORT = :origin AND DESTINATION_AIRPORT '' @
     ''= :destination) OR (ORIGIN_AIRPORT = :origin_vv AND DESTINATION_AIRPORT '' @
     ''= :destination_vv) GROUP BY ORIGIN_AIRPORT, DESTINATION_AIRPORT''"

definition QUERY_LONG_LAT :: string where
  "QUERY_LONG_LAT =
     ''SELECT IATA_CODE, LATITUDE, LONGITUDE FROM airports WHERE IATA_CODE = :origin '' @
     ''OR IATA_CODE = :destination''"

definition templates :: "(string \<times> string) list" where
  "templates =
     [(''QUERY_FLIGHT_BY_ID'', QUERY_FLIGHT_BY_ID),
      (''QUERY_FLIGHT_BY_DATE'', QUERY_FLIGHT_BY_DATE),
      (''QUERY_FLIGHT_BY_AIRLINE'', QUERY_FLIGHT_BY_AIRLINE),
      (''QUERY_FLIGHT_BY_ORIGIN_AIRPORT'', QUERY_FLIGHT_BY_ORIGIN_AIRPORT),
      (''QUERY_AVG_PERCENTAGE_DELAYED_FLIGHTS'', QUERY_AVG_PERCENTAGE_DELAYED_FLIGHTS),
      (''QUERY_LONG_LAT'', QUERY_LONG_LAT)]"

section \<open>What the templates compute\<close>

text \<open>
  SQL's three-valued logic: a condition is \<open>Some True\<close>, \<open>Some False\<close> or \<open>None\<close>
  (unknown, from a null operand). \<^verbatim>\<open>WHERE\<close> keeps the rows whose condition is true.
\<close>

fun sql_and :: "bool option \<Rightarrow> bool option \<Rightarrow> bool option" where
  "sql_and (Some False) _ = Some False"
| "sql_and _ (Some False) = Some False"
| "sql_and (Some True) (Some True) = Some True"
| "sql_and _ _ = None"

definition coalesce :: "int option \<Rightarrow> int \<Rightarrow> int" where
  "coalesce v d = (case v of None \<Rightarrow> d | Some n \<Rightarrow> n)"

text \<open>A number used as a condition is true when it is not zero.\<close>

definition sql_truth :: "int \<Rightarrow> bool option" where
  "sql_truth n = Some (n \<noteq> 0)"

definition sql_ge :: "int option \<Rightarrow> int \<Rightarrow> bool option" where
  "sql_ge v n = (case v of None \<Rightarrow> None | Some m \<Rightarrow> Some (m \<ge> n))"

definition sql_eq :: "'a \<Rightarrow> 'a \<Rightarrow> bool option" where
  "sql_eq x y = Some (x = y)"

text \<open>
  \<^verbatim>\<open>lower\<close> as the SQLite of the class's docstring has it: it folds the letters A to Z
  and leaves every other character as it is, accented letters included. \<^verbatim>\<open>LIKE\<close> has no
  \<^verbatim>\<open>ESCAPE\<close> clause in the templates: \<^verbatim>\<open>%\<close> stands for any run of characters, \<^verbatim>\<open>_\<close> for
  any one character, and every other character for itself, the letters A to Z compared
  without regard to case.
\<close>

definition lower_char :: "char \<Rightarrow> char" where
  "lower_char c =
     (case map_of (zip ''ABCDEFGHIJKLMNOPQRSTUVWXYZ'' ''abcdefghijklmnopqrstuvwxyz'') c of
        None \<Rightarrow> c
      | Some l \<Rightarrow> l)"

definition lower :: "string \<Rightarrow> string" where
  "lower s = map lower_char s"

fun like :: "string \<Rightarrow> string \<Rightarrow> bool" where
  "like [] s = (s = [])"
| "like (p # ps) [] = (p = CHR ''%'' \<and> like ps [])"
| "like (p # ps) (c # cs) =
     (if p = CHR ''%'' then like ps (c # cs) \<or> like (p # ps) cs
      else (p = CHR ''_'' \<or> lower_char p = lower_char c) \<and> like ps cs)"

definition sql_like :: "string \<Rightarrow> string \<Rightarrow> bool option" where
  "sql_like s pattern = Some (like pattern s)"

text \<open>An inner join as a nested loop over the two tables, in the order of \<^verbatim>\<open>FROM\<close>.\<close>

definition join_on :: "'l list \<Rightarrow> 'r list \<Rightarrow> ('l \<Rightarrow> 'r \<Rightarrow> bool) \<Rightarrow> ('l \<times> 'r) list" where
  "join_on ls rs on = concat (map (\<lambda>l. map (Pair l) (filter (on l) rs)) ls)"

definition where_clause :: "('x \<Rightarrow> bool option) \<Rightarrow> 'x list \<Rightarrow> 'x list" where
  "where_clause c xs = filter (\<lambda>x. c x = Some True) xs"

text \<open>
  \<^verbatim>\<open>ORDER BY k DESC\<close>: the rows by falling key, a null key below every number. SQL leaves
  the order of rows with equal keys to the engine; the model takes one such order.
\<close>

definition order_by_desc :: "('x \<Rightarrow> int option) \<Rightarrow> 'x list \<Rightarrow> 'x list" where
  "order_by_desc k xs = rev (sort_key k xs)"

definition nullable :: "int option \<Rightarrow> sqlval" where
  "nullable v = (case v of None \<Rightarrow> SqlNull | Some n \<Rightarrow> SqlInt n)"

text \<open>The select list of \<^verbatim>\<open>QUERY_FLIGHT_BY_ID\<close>; \<^verbatim>\<open>flights.*\<close> is every column of the table.\<close>

definition select_flight :: "flights_row \<times> airlines_row \<Rightarrow> row" where
  "select_flight = (\<lambda>(f, a).
     [(''ID'', SqlInt (f_ID f)),
      (''AIRLINE'', SqlInt (f_AIRLINE f)),
      (''ORIGIN_AIRPORT'', SqlText (f_ORIGIN_AIRPORT f)),
      (''DESTINATION_AIRPORT'', SqlText (f_DESTINATION_AIRPORT f)),
      (''DEPARTURE_DELAY'', nullable (f_DEPARTURE_DELAY f)),
      (''DAY'', SqlInt (f_DAY f)),
      (''MONTH'', SqlInt (f_MONTH f)),
      (''YEAR'', SqlInt (f_YEAR f)),
      (''airline'', SqlText (a_AIRLINE a)),
      (''FLIGHT_ID'', SqlInt (f_ID f)),
      (''DELAY'', nullable (f_DEPARTURE_DELAY f))])"

text \<open>The select list the three delay templates share.\<close>

definition select_delayed :: "airlines_row \<times> flights_row \<Rightarrow> row" where
  "select_delayed = (\<lambda>(a, f).
     [(''id'', SqlInt (f_ID f)),
      (''ORIGIN_AIRPORT'', SqlText (f_ORIGIN_AIRPORT f)),
      (''DESTINATION_AIRPORT'', SqlText (f_DESTINATION_AIRPORT f)),
      (''AIRLINE'', SqlText (a_AIRLINE a)),
      (''DELAY'', nullable (f_DEPARTURE_DELAY f))])"

definition flight_by_id :: "store \<Rightarrow> int \<Rightarrow> row list" where
  "flight_by_id st i =
     map select_flight
       (where_clause (\<lambda>(f, a). sql_eq (f_ID f) i)
         (join_on (flights st) (airlines st) (\<lambda>f a. f_AIRLINE f = a_ID a)))"

definition flights_by_date :: "store \<Rightarrow> int \<Rightarrow> int \<Rightarrow> int \<Rightarrow> row list" where
  "flights_by_date st day month year =
     map select_delayed
       (order_by_desc (\<lambda>(a, f). f_DEPARTURE_DELAY f)
         (where_clause (\<lambda>(a, f).
              sql_and (sql_and (sql_and (sql_and
                (sql_truth (coalesce (f_DEPARTURE_DELAY f) 0))
                (sql_eq (f_DAY f) day))
                (sql_eq (f_MONTH f) month))
                (sql_eq (f_YEAR f) year))
                (sql_ge (f_DEPARTURE_DELAY f) 20))
           (join_on (airlines st) (flights st) (\<lambda>a f. a_ID a = f_AIRLINE f))))"

definition flights_by_airline :: "store \<Rightarrow> string \<Rightarrow> row list" where
  "flights_by_airline st airline =
     map select_delayed
       (order_by_desc (\<lambda>(a, f). f_DEPARTURE_DELAY f)
         (where_clause (\<lambda>(a, f).
              sql_and (sql_and
                (sql_truth (coalesce (f_DEPARTURE_DELAY f) 0))
                (sql_ge (f_DEPARTURE_DELAY f) 20))
                (sql_like (lower (a_AIRLINE a)) (lower airline)))
           (join_on (airlines st) (flights st) (\<lambda>a f. a_ID a = f_AIRLINE f))))"

definition flights_by_origin_airport :: "store \<Rightarrow> string \<Rightarrow> row list" where
  "flights_by_origin_airport st origin_airport =
     map select_delayed
       (order_by_desc (\<lambda>(a, f). f_DEPARTURE_DELAY f)
         (where_clause (\<lambda>(a, f).
              sql_and (sql_and
                (sql_truth (coalesce (f_DEPARTURE_DELAY f) 0))
                (sql_ge (f_DEPARTURE_DELAY f) 20))
                (sql_eq (f_ORIGIN_AIRPORT f) origin_airport))
           (join_on (airlines st) (flights st) (\<lambda>a f. a_ID a = f_AIRLINE f))))"

section \<open>The engine\<close>

text \<open>
  SQLAlchemy and the database behind it are not part of the repository; they are a
  parameter of the model. An engine says, for each call the accessor makes on it inside
  the \<^verbatim>\<open>try\<close> block, whether the call raises: \<^verbatim>\<open>connect()\<close>, \<^verbatim>\<open>execute()\<close>,
  \<^verbatim>\<open>fetchall()\<close> and the \<^verbatim>\<open>close()\<close> that leaving the \<^verbatim>\<open>with\<close> block runs. It also says what
  a query returns that is not one of the four templates of the lookups, or is one of them
  with a parameter missing or of another type than its column (\<open>other_query\<close>), and
  what a statement that is not a query returns and does to the store (\<open>statement\<close>).
\<close>

record engine =
  connect_fault :: "exn option"
  execute_fault :: "exn option"
  fetchall_fault :: "exn option"
  close_fault :: "exn option"
  other_query :: "string \<Rightarrow> params \<Rightarrow> store \<Rightarrow> exn + row list"
  statement :: "string \<Rightarrow> params \<Rightarrow> store \<Rightarrow> (exn + row list) \<times> store"

definition int_param :: "params \<Rightarrow> string \<Rightarrow> int option" where
  "int_param ps k = (case map_of ps k of Some (PyInt n) \<Rightarrow> Some n | _ \<Rightarrow> None)"

definition str_param :: "params \<Rightarrow> string \<Rightarrow> string option" where
  "str_param ps k = (case map_of ps k of Some (PyStr s) \<Rightarrow> Some s | _ \<Rightarrow> None)"

text \<open>A statement is a query when its first keyword is \<^verbatim>\<open>SELECT\<close>; a query reads.\<close>

definition is_query :: "string \<Rightarrow> bool" where
  "is_query q = (take 7 q = ''SELECT '')"

definition run_query :: "engine \<Rightarrow> store \<Rightarrow> string \<Rightarrow> params \<Rightarrow> exn + row list" where
  "run_query eng st q ps =
     (if q = QUERY_FLIGHT_BY_ID then
        (case int_param ps ''id'' of
           Some i \<Rightarrow> Inr (flight_by_id st i)
         | None \<Rightarrow> other_query eng q ps st)
      else if q = QUERY_FLIGHT_BY_DATE then
        (case (int_param ps ''day'', int_param ps ''month'', int_param ps ''year'') of
           (Some d, Some m, Some y) \<Rightarrow> Inr (flights_by_date st d m y)
         | _ \<Rightarrow> other_query eng q ps st)
      else if q = QUERY_FLIGHT_BY_AIRLINE then
        (case str_param ps ''airline'' of
           Some s \<Rightarrow> Inr (flights_by_airline st s)
         | None \<Rightarrow> other_query eng q ps st)
      else if q = QUERY_FLIGHT_BY_ORIGIN_AIRPORT then
        (case str_param ps ''origin_airport'' of
           Some s \<Rightarrow> Inr (flights_by_origin_airport st s)
         | None \<Rightarrow> other_query eng q ps st)
      else other_query eng q ps st)"

text \<open>\<^verbatim>\<open>connection.execute(query, params)\<close>: the rows of the cursor, and the store after it.\<close>

definition execute :: "engine \<Rightarrow> store \<Rightarrow> string \<Rightarrow> params \<Rightarrow> (exn + row list) \<times> store" where
  "execute eng st q ps =
     (case execute_fault eng of
        Some e \<Rightarrow> (Inl e, st)
      | None \<Rightarrow> if is_query q then (run_query eng st q ps, st) else statement eng q ps st)"

section \<open>The accessor\<close>

text \<open>What a call can change: the store behind the engine, and standard output.\<close>

record world =
  db :: store
  stdout :: "string list"

record FlightData =
  self_engine :: engine

text \<open>
  \<^verbatim>\<open>__init__\<close>: \<^verbatim>\<open>self._engine = create_engine(db_uri)\<close>, with no handler around it.
  \<^verbatim>\<open>create_engine\<close> is SQLAlchemy's, a parameter here.
\<close>

definition init :: "(string \<Rightarrow> exn + engine) \<Rightarrow> string \<Rightarrow> exn + FlightData" where
  "init create_engine db_uri =
     (case create_engine db_uri of
        Inl e \<Rightarrow> Inl e
      | Inr eng \<Rightarrow> Inr \<lparr>self_engine = eng\<rparr>)"

text \<open>
  The body of the \<^verbatim>\<open>try\<close> block of \<^verbatim>\<open>_execute_query\<close>:
  \<^verbatim>\<open>with self._engine.connect() as connection: ... return results.fetchall()\<close>.
  Leaving the \<^verbatim>\<open>with\<close> block closes the connection, whether the block returned or
  raised, and an exception raised by that replaces the block's outcome.
\<close>

definition try_block :: "FlightData \<Rightarrow> store \<Rightarrow> string \<Rightarrow> params \<Rightarrow> (exn + row list) \<times> store" where
  "try_block self st query ps =
     (case connect_fault (self_engine self) of
        Some e \<Rightarrow> (Inl e, st)
      | None \<Rightarrow>
          (let (results, st') = execute (self_engine self) st query ps;
               returned =
                 (case results of
                    Inl e \<Rightarrow> Inl e
                  | Inr rows \<Rightarrow>
                      (case fetchall_fault (self_engine self) of
                         Some e \<Rightarrow> Inl e
                       | None \<Rightarrow> Inr rows))
           in (case close_fault (self_engine self) of
                 Some e \<Rightarrow> (Inl e, st')
               | None \<Rightarrow> (returned, st'))))"

text \<open>
  \<^verbatim>\<open>_execute_query\<close>: the first handler takes a \<^verbatim>\<open>SQLAlchemyError\<close>, the second any
  other \<^verbatim>\<open>Exception\<close>; each prints one line and returns the empty list. An exception
  that neither handler takes leaves the method.
\<close>

definition execute_query :: "FlightData \<Rightarrow> world \<Rightarrow> string \<Rightarrow> params \<Rightarrow> (exn + row list) \<times> world" where
  "execute_query self w query ps =
     (case try_block self (db w) query ps of
        (Inr rows, st') \<Rightarrow> (Inr rows, w\<lparr>db := st'\<rparr>)
      | (Inl e, st') \<Rightarrow>
          if is_SQLAlchemyError e then
            (Inr [], w\<lparr>db := st', stdout := stdout w @ [''SQLAlchemy Error: '' @ message e]\<rparr>)
          else if is_Exception e then
            (Inr [], w\<lparr>db := st', stdout := stdout w @ [''Unexpected Error: '' @ message e]\<rparr>)
          else (Inl e, w\<lparr>db := st'\<rparr>))"

definition get_flight_by_id :: "FlightData \<Rightarrow> world \<Rightarrow> pyval \<Rightarrow> (exn + row list) \<times> world" where
  "get_flight_by_id self w flight_id =
     (let ps = [(''id'', flight_id)]
      in execute_query self w QUERY_FLIGHT_BY_ID ps)"

definition get_flights_by_date :: "FlightData \<Rightarrow> world \<Rightarrow> pyval \<Rightarrow> pyval \<Rightarrow> pyval \<Rightarrow> (exn + row list) \<times> world" where
  "get_flights_by_date self w day month year =
     (let ps = [(''day'', day), (''month'', month), (''year'', year)]
      in execute_query self w QUERY_FLIGHT_BY_DATE ps)"

text \<open>
  \<^verbatim>\<open>"%" + airline + "%"\<close> is evaluated before \<^verbatim>\<open>_execute_query\<close> is called, outside its
  \<^verbatim>\<open>try\<close> block.
\<close>

definition get_delayed_flights_by_airline :: "FlightData \<Rightarrow> world \<Rightarrow> pyval \<Rightarrow> (exn + row list) \<times> world" where
  "get_delayed_flights_by_airline self w airline =
     (case str_add ''%'' airline of
        Inl e \<Rightarrow> (Inl e, w)
      | Inr left \<Rightarrow>
          (case add_str left ''%'' of
             Inl e \<Rightarrow> (Inl e, w)
           | Inr pattern \<Rightarrow>
               (let ps = [(''airline'', pattern)]
                in execute_query self w QUERY_FLIGHT_BY_AIRLINE ps)))"

definition get_delayed_flights_by_airport :: "FlightData \<Rightarrow> world \<Rightarrow> pyval \<Rightarrow> (exn + row list) \<times> world" where
  "get_delayed_flights_by_airport self w airport_input =
     (let ps = [(''origin_airport'', airport_input)]
      in execute_query self w QUERY_FLIGHT_BY_ORIGIN_AIRPORT ps)"

text \<open>The public read operations of the class, and a call of one with its arguments.\<close>

datatype operation =
    Get_flight_by_id
  | Get_flights_by_date
  | Get_delayed_flights_by_airline
  | Get_delayed_flights_by_airport

datatype request =
    By_id pyval
  | By_date pyval pyval pyval
  | By_airline pyval
  | By_airport pyval

fun operation_of :: "request \<Rightarrow> operation" where
  "operation_of (By_id _) = Get_flight_by_id"
| "operation_of (By_date _ _ _) = Get_flights_by_date"
| "operation_of (By_airline _) = Get_delayed_flights_by_airline"
| "operation_of (By_airport _) = Get_delayed_flights_by_airport"

fun template_of :: "operation \<Rightarrow> string" where
  "template_of Get_flight_by_id = QUERY_FLIGHT_BY_ID"
| "template_of Get_flights_by_date = QUERY_FLIGHT_BY_DATE"
| "template_of Get_delayed_flights_by_airline = QUERY_FLIGHT_BY_AIRLINE"
| "template_of Get_delayed_flights_by_airport = QUERY_FLIGHT_BY_ORIGIN_AIRPORT"

fun call :: "FlightData \<Rightarrow> world \<Rightarrow> request \<Rightarrow> (exn + row list) \<times> world" where
  "call self w (By_id flight_id) = get_flight_by_id self w flight_id"
| "call self w (By_date day month year) = get_flights_by_date self w day month year"
| "call self w (By_airline airline) = get_delayed_flights_by_airline self w airline"
| "call self w (By_airport airport_input) = get_delayed_flights_by_airport self w airport_input"


section \<open>Parameters of a call, and a healthy engine\<close>

fun params_of :: "request \<Rightarrow> exn + params" where
  "params_of (By_id flight_id) = Inr [(''id'', flight_id)]"
| "params_of (By_date day month year) = Inr [(''day'', day), (''month'', month), (''year'', year)]"
| "params_of (By_airline airline) =
     (case str_add ''%'' airline of
        Inl e \<Rightarrow> Inl e
      | Inr left \<Rightarrow>
          (case add_str left ''%'' of
             Inl e \<Rightarrow> Inl e
           | Inr pattern \<Rightarrow> Inr [(''airline'', pattern)]))"
| "params_of (By_airport airport_input) = Inr [(''origin_airport'', airport_input)]"

definition healthy :: "engine \<Rightarrow> bool" where
  "healthy eng =
     (connect_fault eng = None \<and> execute_fault eng = None \<and>
      fetchall_fault eng = None \<and> close_fault eng = None)"


text \<open>\<^verbatim>\<open>isinstance(v, str)\<close>.\<close>

fun is_str :: "pyval \<Rightarrow> bool" where
  "is_str (PyStr _) = True"
| "is_str _ = False"

text \<open>\<^verbatim>\<open>isinstance(v, collections.UserString)\<close>.\<close>

fun is_UserString :: "pyval \<Rightarrow> bool" where
  "is_UserString (PyUserString _) = True"
| "is_UserString _ = False"

section \<open>Example stores and engines\<close>

text \<open>
  The scenario of the spec: flight 42, delayed by 35 minutes on 1 January 2015, among
  flights that are more delayed, less delayed, and of unknown delay.
\<close>

definition example_store :: store where
  "example_store =
     \<lparr>flights =
        [\<lparr>f_ID = 42, f_AIRLINE = 1, f_ORIGIN_AIRPORT = ''JFK'', f_DESTINATION_AIRPORT = ''LAX'',
          f_DEPARTURE_DELAY = Some 35, f_DAY = 1, f_MONTH = 1, f_YEAR = 2015\<rparr>,
         \<lparr>f_ID = 43, f_AIRLINE = 2, f_ORIGIN_AIRPORT = ''JFK'', f_DESTINATION_AIRPORT = ''SFO'',
          f_DEPARTURE_DELAY = Some 120, f_DAY = 1, f_MONTH = 1, f_YEAR = 2015\<rparr>,
         \<lparr>f_ID = 44, f_AIRLINE = 1, f_ORIGIN_AIRPORT = ''ATL'', f_DESTINATION_AIRPORT = ''JFK'',
          f_DEPARTURE_DELAY = Some 5, f_DAY = 1, f_MONTH = 1, f_YEAR = 2015\<rparr>,
         \<lparr>f_ID = 45, f_AIRLINE = 2, f_ORIGIN_AIRPORT = ''JFK'', f_DESTINATION_AIRPORT = ''ORD'',
          f_DEPARTURE_DELAY = None, f_DAY = 2, f_MONTH = 1, f_YEAR = 2015\<rparr>],
      airlines =
        [\<lparr>a_ID = 1, a_AIRLINE = ''Delta Air Lines''\<rparr>,
         \<lparr>a_ID = 2, a_AIRLINE = ''American Airlines''\<rparr>]\<rparr>"

text \<open>A store in which flight 42 names a carrier that the carrier table does not hold.\<close>

definition orphan_store :: store where
  "orphan_store =
     \<lparr>flights =
        [\<lparr>f_ID = 42, f_AIRLINE = 7, f_ORIGIN_AIRPORT = ''JFK'', f_DESTINATION_AIRPORT = ''LAX'',
          f_DEPARTURE_DELAY = Some 35, f_DAY = 1, f_MONTH = 1, f_YEAR = 2015\<rparr>],
      airlines = []\<rparr>"

text \<open>A store whose one carrier has an accented letter in its name, \<^verbatim>\<open>A\<close>, e acute, \<^verbatim>\<open>ro\<close>.\<close>

definition accent_store :: store where
  "accent_store =
     \<lparr>flights =
        [\<lparr>f_ID = 50, f_AIRLINE = 3, f_ORIGIN_AIRPORT = ''CDG'', f_DESTINATION_AIRPORT = ''JFK'',
          f_DEPARTURE_DELAY = Some 30, f_DAY = 1, f_MONTH = 1, f_YEAR = 2015\<rparr>],
      airlines = [\<lparr>a_ID = 3, a_AIRLINE = [CHR ''A'', CHR 0xE9, CHR ''r'', CHR ''o'']\<rparr>]\<rparr>"

text \<open>
  An engine whose calls all succeed. A statement that is not a query empties the flight
  table, so that a frame property of the lookups says something.
\<close>

definition sound_engine :: engine where
  "sound_engine =
     \<lparr>connect_fault = None, execute_fault = None, fetchall_fault = None, close_fault = None,
      other_query = (\<lambda>q ps st. Inr []),
      statement = (\<lambda>q ps st. (Inr [], st\<lparr>flights := []\<rparr>))\<rparr>"

definition example_world :: world where
  "example_world = \<lparr>db = example_store, stdout = []\<rparr>"

text \<open>\<^verbatim>\<open>create_engine\<close> for one well-formed URI; any other string is refused.\<close>

definition example_create_engine :: "string \<Rightarrow> exn + engine" where
  "example_create_engine db_uri =
     (if db_uri = ''sqlite:///data/flights.sqlite3'' then Inr sound_engine
      else Inl (SQLAlchemyError ''Could not parse SQLAlchemy URL''))"

text \<open>
  An engine that refuses a parameter it cannot bind, as a database driver does for an
  object that is not one of its own types.
\<close>

definition strict_engine :: engine where
  "strict_engine =
     sound_engine\<lparr>other_query := (\<lambda>q ps st. Inl (SQLAlchemyError ''Error binding parameter''))\<rparr>"

section \<open>Properties of results\<close>

text \<open>The departure delay a result record carries, when it carries a number.\<close>

definition delay_of :: "row \<Rightarrow> int option" where
  "delay_of r = (case map_of r ''DELAY'' of Some (SqlInt n) \<Rightarrow> Some n | _ \<Rightarrow> None)"

text \<open>Every record is delayed by 20 minutes or more, and no record is followed by a more delayed one.\<close>

definition delayed_desc :: "row list \<Rightarrow> bool" where
  "delayed_desc rows =
     (list_all (\<lambda>r. case delay_of r of Some n \<Rightarrow> 20 \<le> n | None \<Rightarrow> False) rows \<and>
      sorted_wrt (\<lambda>r r'. delay_of r' \<le> delay_of r) rows)"

text \<open>
  The joined flights delayed by 20 minutes or more whose carrier satisfies \<open>p\<close>, most
  delayed first, in the shape of the delay templates.
\<close>

definition delayed_flights_where :: "store \<Rightarrow> (airlines_row \<Rightarrow> bool) \<Rightarrow> row list" where
  "delayed_flights_where st p =
     map select_delayed
       (order_by_desc (\<lambda>(a, f). f_DEPARTURE_DELAY f)
         (filter (\<lambda>(a, f). (case f_DEPARTURE_DELAY f of Some n \<Rightarrow> 20 \<le> n | None \<Rightarrow> False) \<and> p a)
           (join_on (airlines st) (flights st) (\<lambda>a f. a_ID a = f_AIRLINE f))))"

text \<open>
  Two strings that differ only in the case of the letters A to Z: at each position the
  same character, or the capital and the small form of one of these letters.
\<close>

definition same_ascii_letter :: "char \<Rightarrow> char \<Rightarrow> bool" where
  "same_ascii_letter c d =
     (c = d \<or>
      (c, d) \<in> set (zip ''ABCDEFGHIJKLMNOPQRSTUVWXYZ'' ''abcdefghijklmnopqrstuvwxyz'') \<or>
      (d, c) \<in> set (zip ''ABCDEFGHIJKLMNOPQRSTUVWXYZ'' ''abcdefghijklmnopqrstuvwxyz''))"

definition differ_only_in_ascii_case :: "string \<Rightarrow> string \<Rightarrow> bool" where
  "differ_only_in_ascii_case s t = list_all2 same_ascii_letter s t"

text \<open>
  Two strings that differ only in letter case, for every letter a string can hold: the
  letters A to Z and the accented letters of the Latin-1 supplement, whose capitals are the
  code points C0 to DE but the multiplication sign D7, each 32 below its small form.
\<close>

definition capital_letters :: "char list" where
  "capital_letters =
     ''ABCDEFGHIJKLMNOPQRSTUVWXYZ'' @
       [CHR 0xC0, CHR 0xC1, CHR 0xC2, CHR 0xC3, CHR 0xC4, CHR 0xC5, CHR 0xC6, CHR 0xC7,
        CHR 0xC8, CHR 0xC9, CHR 0xCA, CHR 0xCB, CHR 0xCC, CHR 0xCD, CHR 0xCE, CHR 0xCF,
        CHR 0xD0, CHR 0xD1, CHR 0xD2, CHR 0xD3, CHR 0xD4, CHR 0xD5, CHR 0xD6, CHR 0xD8,
        CHR 0xD9, CHR 0xDA, CHR 0xDB, CHR 0xDC, CHR 0xDD, CHR 0xDE]"

definition small_letters :: "char list" where
  "small_letters =
     ''abcdefghijklmnopqrstuvwxyz'' @
       [CHR 0xE0, CHR 0xE1, CHR 0xE2, CHR 0xE3, CHR 0xE4, CHR 0xE5, CHR 0xE6, CHR 0xE7,
        CHR 0xE8, CHR 0xE9, CHR 0xEA, CHR 0xEB, CHR 0xEC, CHR 0xED, CHR 0xEE, CHR 0xEF,
        CHR 0xF0, CHR 0xF1, CHR 0xF2, CHR 0xF3, CHR 0xF4, CHR 0xF5, CHR 0xF6, CHR 0xF8,
        CHR 0xF9, CHR 0xFA, CHR 0xFB, CHR 0xFC, CHR 0xFD, CHR 0xFE]"

definition same_letter :: "char \<Rightarrow> char \<Rightarrow> bool" where
  "same_letter c d =
     (c = d \<or> (c, d) \<in> set (zip capital_letters small_letters) \<or>
      (d, c) \<in> set (zip capital_letters small_letters))"

definition differ_only_in_letter_case :: "string \<Rightarrow> string \<Rightarrow> bool" where
  "differ_only_in_letter_case s t = list_all2 same_letter s t"

text \<open>The columns of each operation's template, read off its select list.\<close>

fun projection :: "operation \<Rightarrow> string list" where
  "projection Get_flight_by_id =
     [''ID'', ''AIRLINE'', ''ORIGIN_AIRPORT'', ''DESTINATION_AIRPORT'', ''DEPARTURE_DELAY'',
      ''DAY'', ''MONTH'', ''YEAR'', ''airline'', ''FLIGHT_ID'', ''DELAY'']"
| "projection _ = [''id'', ''ORIGIN_AIRPORT'', ''DESTINATION_AIRPORT'', ''AIRLINE'', ''DELAY'']"

text \<open>A call whose arguments have the types of the columns they are compared with.\<close>

fun well_typed :: "request \<Rightarrow> bool" where
  "well_typed (By_id (PyInt _)) = True"
| "well_typed (By_date (PyInt _) (PyInt _) (PyInt _)) = True"
| "well_typed (By_airline (PyStr _)) = True"
| "well_typed (By_airport (PyStr _)) = True"
| "well_typed _ = False"

text \<open>
  The methods of the class in the order of the source, and the public ones among them:
  those whose name does not start with an underscore.
\<close>

definition methods :: "string list" where
  "methods =
     [''__init__'', ''_execute_query'', ''get_flight_by_id'', ''get_flights_by_date'',
      ''get_delayed_flights_by_airline'', ''get_delayed_flights_by_airport'', ''__del__'']"

definition read_operations :: "string list" where
  "read_operations = filter (\<lambda>name. take 1 name \<noteq> ''_'') methods"

fun name_of :: "operation \<Rightarrow> string" where
  "name_of Get_flight_by_id = ''get_flight_by_id''"
| "name_of Get_flights_by_date = ''get_flights_by_date''"
| "name_of Get_delayed_flights_by_airline = ''get_delayed_flights_by_airline''"
| "name_of Get_delayed_flights_by_airport = ''get_delayed_flights_by_airport''"

section \<open>Facts about the templates and the helper\<close>

lemma template_distinct:
  "QUERY_FLIGHT_BY_DATE \<noteq> QUERY_FLIGHT_BY_ID"
  "QUERY_FLIGHT_BY_AIRLINE \<noteq> QUERY_FLIGHT_BY_ID"
  "QUERY_FLIGHT_BY_AIRLINE \<noteq> QUERY_FLIGHT_BY_DATE"
  "QUERY_FLIGHT_BY_ORIGIN_AIRPORT \<noteq> QUERY_FLIGHT_BY_ID"
  "QUERY_FLIGHT_BY_ORIGIN_AIRPORT \<noteq> QUERY_FLIGHT_BY_DATE"
  "QUERY_FLIGHT_BY_ORIGIN_AIRPORT \<noteq> QUERY_FLIGHT_BY_AIRLINE"
  by (simp_all add: QUERY_FLIGHT_BY_ID_def QUERY_FLIGHT_BY_DATE_def
      QUERY_FLIGHT_BY_AIRLINE_def QUERY_FLIGHT_BY_ORIGIN_AIRPORT_def)

lemma template_is_query:
  "is_query QUERY_FLIGHT_BY_ID"
  "is_query QUERY_FLIGHT_BY_DATE"
  "is_query QUERY_FLIGHT_BY_AIRLINE"
  "is_query QUERY_FLIGHT_BY_ORIGIN_AIRPORT"
  by (simp_all add: is_query_def QUERY_FLIGHT_BY_ID_def QUERY_FLIGHT_BY_DATE_def
      QUERY_FLIGHT_BY_AIRLINE_def QUERY_FLIGHT_BY_ORIGIN_AIRPORT_def)

lemma is_query_template_of: "is_query (template_of op)"
  by (cases op) (simp_all add: template_is_query)

lemma run_query_by_id:
  "run_query eng st QUERY_FLIGHT_BY_ID [(''id'', PyInt i)] = Inr (flight_by_id st i)"
  by (simp add: run_query_def int_param_def)

lemma run_query_by_date:
  "run_query eng st QUERY_FLIGHT_BY_DATE
     [(''day'', PyInt d), (''month'', PyInt m), (''year'', PyInt y)] =
   Inr (flights_by_date st d m y)"
  by (simp add: run_query_def int_param_def template_distinct)

lemma run_query_by_airline:
  "run_query eng st QUERY_FLIGHT_BY_AIRLINE [(''airline'', PyStr s)] =
   Inr (flights_by_airline st s)"
  by (simp add: run_query_def str_param_def template_distinct)

lemma run_query_by_airport:
  "run_query eng st QUERY_FLIGHT_BY_ORIGIN_AIRPORT [(''origin_airport'', PyStr s)] =
   Inr (flights_by_origin_airport st s)"
  by (simp add: run_query_def str_param_def template_distinct)

lemma execute_keeps_store: "is_query q \<Longrightarrow> snd (execute eng st q ps) = st"
  by (simp add: execute_def split: option.split)

lemma try_block_keeps_store: "is_query q \<Longrightarrow> snd (try_block self st q ps) = st"
  using execute_keeps_store [of q "self_engine self" st ps]
  by (auto simp: try_block_def split: option.split prod.split)

text \<open>Where the \<^verbatim>\<open>try\<close> block raises: at any of the four calls on the engine.\<close>

lemma try_block_faults:
  "connect_fault (self_engine self) = Some e \<Longrightarrow> fst (try_block self st q ps) = Inl e"
  "connect_fault (self_engine self) = None \<Longrightarrow> close_fault (self_engine self) = Some e \<Longrightarrow>
     fst (try_block self st q ps) = Inl e"
  "connect_fault (self_engine self) = None \<Longrightarrow> close_fault (self_engine self) = None \<Longrightarrow>
     execute_fault (self_engine self) = Some e \<Longrightarrow> fst (try_block self st q ps) = Inl e"
  "connect_fault (self_engine self) = None \<Longrightarrow> close_fault (self_engine self) = None \<Longrightarrow>
     execute_fault (self_engine self) = None \<Longrightarrow> is_query q \<Longrightarrow>
     run_query (self_engine self) st q ps = Inr rows \<Longrightarrow>
     fetchall_fault (self_engine self) = Some e \<Longrightarrow> fst (try_block self st q ps) = Inl e"
  by (simp_all add: try_block_def execute_def split: prod.split)

lemma try_block_returned:
  assumes "fst (try_block self st q ps) = Inr rows" and "is_query q"
  shows "run_query (self_engine self) st q ps = Inr rows"
  using assms
  by (auto simp: try_block_def execute_def split: option.splits prod.splits sum.splits if_splits)

lemma try_block_healthy:
  assumes "healthy (self_engine self)" and "is_query q"
  shows "try_block self st q ps = (run_query (self_engine self) st q ps, st)"
  using assms
  by (auto simp: try_block_def execute_def healthy_def split: sum.splits)

lemma execute_query_raised:
  assumes "fst (try_block self (db w) q ps) = Inl e" and "is_Exception e"
  shows "execute_query self w q ps =
    (Inr [], w\<lparr>db := snd (try_block self (db w) q ps),
       stdout := stdout w @
         [(if is_SQLAlchemyError e then ''SQLAlchemy Error: '' else ''Unexpected Error: '')
          @ message e]\<rparr>)"
  using assms by (cases "try_block self (db w) q ps") (simp add: execute_query_def)

text \<open>An exception outside the class \<^verbatim>\<open>Exception\<close> passes both handlers.\<close>

lemma execute_query_reraises:
  assumes "fst (try_block self (db w) q ps) = Inl e" and "\<not> is_Exception e"
  shows "fst (execute_query self w q ps) = Inl e \<and> stdout (snd (execute_query self w q ps)) = stdout w"
  using assms
  by (cases "try_block self (db w) q ps") (cases e; simp add: execute_query_def)

lemma execute_query_rows:
  assumes "fst (execute_query self w q ps) = Inr rows" and "is_query q"
  shows "rows = [] \<or> run_query (self_engine self) (db w) q ps = Inr rows"
proof (cases "try_block self (db w) q ps")
  case (Pair r st')
  show ?thesis
  proof (cases r)
    case (Inl e)
    with Pair assms(1) show ?thesis
      by (auto simp: execute_query_def split: if_splits)
  next
    case (Inr rs)
    with Pair assms(1) have "rs = rows"
      by (simp add: execute_query_def)
    with Pair Inr have "fst (try_block self (db w) q ps) = Inr rows"
      by simp
    from try_block_returned [OF this assms(2)] show ?thesis ..
  qed
qed

lemma execute_query_healthy:
  assumes "healthy (self_engine self)" and "is_query q"
    and "run_query (self_engine self) (db w) q ps = Inr rows"
  shows "execute_query self w q ps = (Inr rows, w)"
  using assms by (simp add: execute_query_def try_block_healthy)

lemma execute_query_cong:
  assumes "is_query q"
    and "run_query (self_engine self) (db w) q ps = run_query (self_engine self) (db w) q ps'"
  shows "execute_query self w q ps = execute_query self w q ps'"
proof -
  have e: "execute (self_engine self) (db w) q ps = execute (self_engine self) (db w) q ps'"
    unfolding execute_def using assms by (cases "execute_fault (self_engine self)") simp_all
  show ?thesis
    unfolding execute_query_def try_block_def by (subst e) (rule refl)
qed

lemma execute_query_keeps_store:
  assumes "is_query q"
  shows "db (snd (execute_query self w q ps)) = db w"
  using try_block_keeps_store [OF assms, of self "db w" ps]
  by (cases "try_block self (db w) q ps")
     (auto simp: execute_query_def split: sum.splits)

lemma call_params_of:
  "call self w rq =
     (case params_of rq of
        Inl e \<Rightarrow> (Inl e, w)
      | Inr ps \<Rightarrow> execute_query self w (template_of (operation_of rq)) ps)"
  by (cases rq)
     (simp_all add: get_flight_by_id_def get_flights_by_date_def
        get_delayed_flights_by_airline_def get_delayed_flights_by_airport_def
        split: sum.splits)

section \<open>Error handling\<close>

text \<open>
  C1. Whichever lookup is called, once its parameter dictionary is built: if the
  \<^verbatim>\<open>try\<close> block of the helper raises an exception of class \<^verbatim>\<open>Exception\<close> (a
  \<^verbatim>\<open>SQLAlchemyError\<close> of the store or any other fault, at \<^verbatim>\<open>connect\<close>, \<^verbatim>\<open>execute\<close>,
  \<^verbatim>\<open>fetchall\<close> or on closing the connection), the lookup returns the empty list, and the
  only change to the world is one line appended to standard output that carries the
  fault's message. Nothing is raised to the caller.
\<close>

theorem query_fault_swallowed:
  assumes "params_of rq = Inr ps"
    and "fst (try_block self (db w) (template_of (operation_of rq)) ps) = Inl e"
    and "is_Exception e"
  shows "call self w rq =
    (Inr [], w\<lparr>stdout := stdout w @
       [(if is_SQLAlchemyError e then ''SQLAlchemy Error: '' else ''Unexpected Error: '')
        @ message e]\<rparr>)"
proof -
  let ?q = "template_of (operation_of rq)"
  have "snd (try_block self (db w) ?q ps) = db w"
    by (rule try_block_keeps_store) (rule is_query_template_of)
  with execute_query_raised [OF assms(2,3)] assms(1) show ?thesis
    by (simp add: call_params_of)
qed

theorem query_fault_swallowed_witness:
  "call \<lparr>self_engine = sound_engine\<lparr>execute_fault := Some (SQLAlchemyError ''database is locked'')\<rparr>\<rparr>
     example_world (By_id (PyInt 42)) =
     (Inr [], \<lparr>db = example_store, stdout = [''SQLAlchemy Error: database is locked'']\<rparr>)
   \<and> call \<lparr>self_engine = sound_engine\<lparr>connect_fault := Some (OtherException ''timed out'')\<rparr>\<rparr>
     example_world (By_date (PyInt 1) (PyInt 1) (PyInt 2015)) =
     (Inr [], \<lparr>db = example_store, stdout = [''Unexpected Error: timed out'']\<rparr>)"
proof -
  let ?s1 = "\<lparr>self_engine = sound_engine\<lparr>execute_fault := Some (SQLAlchemyError ''database is locked'')\<rparr>\<rparr>"
  let ?s2 = "\<lparr>self_engine = sound_engine\<lparr>connect_fault := Some (OtherException ''timed out'')\<rparr>\<rparr>"
  have 1: "fst (try_block ?s1 (db example_world) (template_of (operation_of (By_id (PyInt 42))))
             [(''id'', PyInt 42)]) = Inl (SQLAlchemyError ''database is locked'')"
    by (simp add: try_block_def execute_def sound_engine_def)
  have 2: "fst (try_block ?s2 (db example_world)
             (template_of (operation_of (By_date (PyInt 1) (PyInt 1) (PyInt 2015))))
             [(''day'', PyInt 1), (''month'', PyInt 1), (''year'', PyInt 2015)]) =
           Inl (OtherException ''timed out'')"
    by (simp add: try_block_def sound_engine_def)
  have a: "call ?s1 example_world (By_id (PyInt 42)) =
     (Inr [], \<lparr>db = example_store, stdout = [''SQLAlchemy Error: database is locked'']\<rparr>)"
    using query_fault_swallowed [of "By_id (PyInt 42)" "[(''id'', PyInt 42)]" ?s1 example_world, OF _ 1]
    by (simp add: example_world_def)
  have b: "call ?s2 example_world (By_date (PyInt 1) (PyInt 1) (PyInt 2015)) =
     (Inr [], \<lparr>db = example_store, stdout = [''Unexpected Error: timed out'']\<rparr>)"
    using query_fault_swallowed [of "By_date (PyInt 1) (PyInt 1) (PyInt 2015)"
        "[(''day'', PyInt 1), (''month'', PyInt 1), (''year'', PyInt 2015)]" ?s2 example_world, OF _ 2]
    by (simp add: example_world_def)
  from a b show ?thesis ..
qed

lemma execute_query_raises_no_Exception:
  assumes "fst (execute_query self w q ps) = Inl e"
  shows "\<not> is_Exception e"
  using assms
  by (cases "try_block self (db w) q ps")
     (auto simp: execute_query_def split: sum.splits if_splits)

lemma params_of_built:
  assumes "operation_of rq \<noteq> Get_delayed_flights_by_airline"
  shows "\<exists>ps. params_of rq = Inr ps"
  using assms by (cases rq) simp_all

lemma str_add_builtin:
  assumes "\<not> is_str v" and "\<not> is_UserString v"
  shows "str_add s v =
    Inl (TypeError (''can only concatenate str (not '' @ [CHR 0x22] @ type_name v @ [CHR 0x22] @
      '') to str''))"
  using assms by (cases v) simp_all

text \<open>
  A statement that is not a query can change the store through the same helper: the
  lookups leave the store alone because of the statements they send.
\<close>

lemma execute_query_can_write:
  "db (snd (execute_query \<lparr>self_engine = sound_engine\<rparr> example_world ''DELETE FROM flights'' []))
   \<noteq> db example_world"
  by (simp add: execute_query_def try_block_def execute_def is_query_def sound_engine_def
      example_world_def example_store_def)

text \<open>
  C6. An exception raised by \<^verbatim>\<open>create_engine\<close> while the accessor is constructed leaves
  \<^verbatim>\<open>__init__\<close> unchanged, whatever its class; and an exception raised while a lookup
  builds its parameter dictionary, before the helper is entered, leaves the lookup
  unchanged, with nothing printed and the world as it was.
\<close>

theorem construction_and_binding_faults_propagate:
  "(create_engine db_uri = Inl e \<longrightarrow> init create_engine db_uri = Inl e) \<and>
   (params_of rq = Inl e' \<longrightarrow> call self w rq = (Inl e', w))"
  by (simp add: init_def call_params_of)

theorem construction_and_binding_faults_propagate_witness:
  "init example_create_engine ''flights.sqlite3'' =
     Inl (SQLAlchemyError ''Could not parse SQLAlchemy URL'') \<and>
   call \<lparr>self_engine = sound_engine\<rparr> example_world (By_airline PyNone) =
     (Inl (TypeError (''can only concatenate str (not '' @ [CHR 0x22] @ ''NoneType'' @ [CHR 0x22] @
        '') to str'')), example_world)"
  using construction_and_binding_faults_propagate
    [of example_create_engine "''flights.sqlite3''"
        "SQLAlchemyError ''Could not parse SQLAlchemy URL''"
        "By_airline PyNone"
        "TypeError (''can only concatenate str (not '' @ [CHR 0x22] @ ''NoneType'' @ [CHR 0x22] @
           '') to str'')"
        "\<lparr>self_engine = sound_engine\<rparr>" example_world]
  by (simp add: example_create_engine_def)

text \<open>
  C10, as the code has it. For an argument of a built-in type other than \<^verbatim>\<open>str\<close>
  (\<^verbatim>\<open>None\<close>, a boolean, an integer, a byte string or a list), \<^verbatim>\<open>"%" + airline\<close> raises a
  \<^verbatim>\<open>TypeError\<close> in the lookup by carrier, before the helper is entered: the lookup raises
  it, prints nothing and touches neither engine nor store. For a \<^verbatim>\<open>UserString\<close>, which is
  not a string either, the concatenation succeeds and the helper is entered with the
  wrapped pattern. Each of the other three lookups builds its dictionary from any argument
  and hands it to the helper, so no exception of class \<^verbatim>\<open>Exception\<close> ever leaves it.
\<close>

theorem non_string_carrier_fault_propagates:
  "(\<not> is_str airline \<and> \<not> is_UserString airline \<longrightarrow>
      get_delayed_flights_by_airline self w airline =
        (Inl (TypeError (''can only concatenate str (not '' @ [CHR 0x22] @ type_name airline @
           [CHR 0x22] @ '') to str'')), w)) \<and>
   get_delayed_flights_by_airline self w (PyUserString u) =
     execute_query self w QUERY_FLIGHT_BY_AIRLINE [(''airline'', PyUserString (''%'' @ u @ ''%''))] \<and>
   (operation_of rq \<noteq> Get_delayed_flights_by_airline \<longrightarrow>
      (\<exists>ps. params_of rq = Inr ps \<and>
            call self w rq = execute_query self w (template_of (operation_of rq)) ps) \<and>
      (\<forall>e. fst (call self w rq) = Inl e \<longrightarrow> \<not> is_Exception e))"
proof (intro conjI impI)
  assume "\<not> is_str airline \<and> \<not> is_UserString airline"
  then show "get_delayed_flights_by_airline self w airline =
      (Inl (TypeError (''can only concatenate str (not '' @ [CHR 0x22] @ type_name airline @
         [CHR 0x22] @ '') to str'')), w)"
    by (simp add: get_delayed_flights_by_airline_def str_add_builtin)
next
  show "get_delayed_flights_by_airline self w (PyUserString u) =
      execute_query self w QUERY_FLIGHT_BY_AIRLINE [(''airline'', PyUserString (''%'' @ u @ ''%''))]"
    by (simp add: get_delayed_flights_by_airline_def)
next
  assume other: "operation_of rq \<noteq> Get_delayed_flights_by_airline"
  from params_of_built [OF other] obtain ps where ps: "params_of rq = Inr ps" ..
  then have eq: "call self w rq = execute_query self w (template_of (operation_of rq)) ps"
    by (simp add: call_params_of)
  with ps show "\<exists>ps. params_of rq = Inr ps \<and>
      call self w rq = execute_query self w (template_of (operation_of rq)) ps"
    by blast
  show "\<forall>e. fst (call self w rq) = Inl e \<longrightarrow> \<not> is_Exception e"
    using eq execute_query_raises_no_Exception by simp
qed

theorem non_string_carrier_fault_propagates_witness:
  "get_delayed_flights_by_airline
     \<lparr>self_engine = sound_engine\<lparr>execute_fault := Some (TypeError ''unsupported type'')\<rparr>\<rparr>
     example_world (PyInt 5) =
     (Inl (TypeError (''can only concatenate str (not '' @ [CHR 0x22] @ ''int'' @ [CHR 0x22] @
        '') to str'')), example_world) \<and>
   fst (call \<lparr>self_engine = sound_engine\<lparr>execute_fault := Some (TypeError ''unsupported type'')\<rparr>\<rparr>
     example_world (By_airport (PyInt 5))) \<noteq> Inl (TypeError ''unsupported type'')"
  using non_string_carrier_fault_propagates
    [of "PyInt 5"
        "\<lparr>self_engine = sound_engine\<lparr>execute_fault := Some (TypeError ''unsupported type'')\<rparr>\<rparr>"
        example_world "[]" "By_airport (PyInt 5)"]
  by auto

text \<open>
  C10 as the spec words it, for every argument that is not a string, fails on a
  \<^verbatim>\<open>UserString\<close>: the pattern is built, the helper is entered, and the engine's refusal to
  bind the object is printed and turned into the empty list instead of being raised.
\<close>

theorem user_string_carrier_counterexample:
  "\<not> is_str (PyUserString ''delta'') \<and>
   get_delayed_flights_by_airline \<lparr>self_engine = strict_engine\<rparr> example_world
     (PyUserString ''delta'') =
     (Inr [], \<lparr>db = example_store, stdout = [''SQLAlchemy Error: Error binding parameter'']\<rparr>)"
  by (simp add: get_delayed_flights_by_airline_def execute_query_def try_block_def execute_def
      run_query_def str_param_def template_distinct template_is_query strict_engine_def
      sound_engine_def example_world_def)

section \<open>The lookups only read\<close>

text \<open>
  C8. Every call of every lookup leaves the store as it found it, whatever the
  arguments, whatever the engine does on statements that are not queries, and whether
  or not the call meets a fault.
\<close>

theorem lookups_read_only: "db (snd (call self w rq)) = db w"
proof (cases "params_of rq")
  case (Inl e)
  then show ?thesis by (simp add: call_params_of)
next
  case (Inr ps)
  then show ?thesis
    by (simp add: call_params_of execute_query_keeps_store is_query_template_of)
qed

theorem lookups_read_only_witness:
  "db (snd (call \<lparr>self_engine = sound_engine\<rparr> example_world (By_id (PyInt 42)))) = example_store"
  using lookups_read_only [of "\<lparr>self_engine = sound_engine\<rparr>" example_world "By_id (PyInt 42)"]
  by (simp add: example_world_def)

section \<open>Facts about the queries\<close>

lemma sql_and_True: "sql_and x y = Some True \<longleftrightarrow> x = Some True \<and> y = Some True"
  by (induction x y rule: sql_and.induct) auto

lemma delayed_condition:
  "sql_and (sql_truth (coalesce d 0)) (sql_ge d 20) = Some True \<longleftrightarrow>
   (case d of Some n \<Rightarrow> 20 \<le> n | None \<Rightarrow> False)"
  by (cases d) (auto simp: sql_and_True sql_truth_def coalesce_def sql_ge_def)

lemma where_by_date:
  "where_clause (\<lambda>(a, f).
       sql_and (sql_and (sql_and (sql_and
         (sql_truth (coalesce (f_DEPARTURE_DELAY f) 0))
         (sql_eq (f_DAY f) day))
         (sql_eq (f_MONTH f) month))
         (sql_eq (f_YEAR f) year))
         (sql_ge (f_DEPARTURE_DELAY f) 20)) xs =
   filter (\<lambda>(a, f). (case f_DEPARTURE_DELAY f of Some n \<Rightarrow> 20 \<le> n | None \<Rightarrow> False) \<and>
       f_DAY f = day \<and> f_MONTH f = month \<and> f_YEAR f = year) xs"
  unfolding where_clause_def
  by (rule filter_cong [OF refl])
     (auto simp: sql_and_True sql_eq_def sql_truth_def coalesce_def sql_ge_def
       split: option.splits)

lemma where_by_airline:
  "where_clause (\<lambda>(a, f).
       sql_and (sql_and
         (sql_truth (coalesce (f_DEPARTURE_DELAY f) 0))
         (sql_ge (f_DEPARTURE_DELAY f) 20))
         (sql_like (lower (a_AIRLINE a)) (lower airline))) xs =
   filter (\<lambda>(a, f). (case f_DEPARTURE_DELAY f of Some n \<Rightarrow> 20 \<le> n | None \<Rightarrow> False) \<and>
       like (lower airline) (lower (a_AIRLINE a))) xs"
  unfolding where_clause_def
  by (rule filter_cong [OF refl])
     (auto simp: sql_and_True sql_like_def sql_truth_def coalesce_def sql_ge_def
       split: option.splits)

lemma where_by_origin_airport:
  "where_clause (\<lambda>(a, f).
       sql_and (sql_and
         (sql_truth (coalesce (f_DEPARTURE_DELAY f) 0))
         (sql_ge (f_DEPARTURE_DELAY f) 20))
         (sql_eq (f_ORIGIN_AIRPORT f) origin_airport)) xs =
   filter (\<lambda>(a, f). (case f_DEPARTURE_DELAY f of Some n \<Rightarrow> 20 \<le> n | None \<Rightarrow> False) \<and>
       f_ORIGIN_AIRPORT f = origin_airport) xs"
  unfolding where_clause_def
  by (rule filter_cong [OF refl])
     (auto simp: sql_and_True sql_eq_def sql_truth_def coalesce_def sql_ge_def
       split: option.splits)

lemma delay_of_select_delayed: "delay_of (select_delayed (a, f)) = f_DEPARTURE_DELAY f"
  by (simp add: delay_of_def select_delayed_def nullable_def split: option.split)

lemma set_order_by_desc: "set (order_by_desc k xs) = set xs"
  by (simp add: order_by_desc_def)

lemma sorted_order_by_desc: "sorted_wrt (\<lambda>x y. k y \<le> k x) (order_by_desc k xs)"
proof -
  have "sorted (map k (sort_key k xs))"
    by (rule sorted_sort_key)
  then have "sorted_wrt (\<lambda>x y. k x \<le> k y) (sort_key k xs)"
    by (simp add: sorted_map)
  then show ?thesis
    by (simp add: order_by_desc_def sorted_wrt_rev)
qed

lemma delayed_desc_pipeline:
  assumes "\<And>a f. p (a, f) \<Longrightarrow> (case f_DEPARTURE_DELAY f of Some n \<Rightarrow> 20 \<le> n | None \<Rightarrow> False)"
  shows "delayed_desc (map select_delayed (order_by_desc (\<lambda>(a, f). f_DEPARTURE_DELAY f) (filter p xs)))"
proof -
  let ?k = "\<lambda>(a, f). f_DEPARTURE_DELAY f"
  let ?ys = "order_by_desc ?k (filter p xs)"
  have key: "delay_of (select_delayed x) = ?k x" for x :: "airlines_row \<times> flights_row"
    by (cases x) (simp add: delay_of_select_delayed)
  have "list_all (\<lambda>r. case delay_of r of Some n \<Rightarrow> 20 \<le> n | None \<Rightarrow> False) (map select_delayed ?ys)"
    using assms by (auto simp: list_all_iff set_order_by_desc key)
  moreover have "sorted_wrt (\<lambda>r r'. delay_of r' \<le> delay_of r) (map select_delayed ?ys)"
    using sorted_order_by_desc [of ?k "filter p xs"]
    by (simp add: sorted_wrt_map key)
  ultimately show ?thesis
    by (simp add: delayed_desc_def)
qed

lemma delayed_desc_Nil: "delayed_desc []"
  by (simp add: delayed_desc_def)

lemma delayed_desc_by_date: "delayed_desc (flights_by_date st day month year)"
  unfolding flights_by_date_def where_by_date
  by (rule delayed_desc_pipeline) simp

lemma delayed_desc_by_airline: "delayed_desc (flights_by_airline st airline)"
  unfolding flights_by_airline_def where_by_airline
  by (rule delayed_desc_pipeline) simp

lemma delayed_desc_by_origin_airport: "delayed_desc (flights_by_origin_airport st origin_airport)"
  unfolding flights_by_origin_airport_def where_by_origin_airport
  by (rule delayed_desc_pipeline) simp

lemma example_by_date:
  "flights_by_date example_store 1 1 2015 =
     [[(''id'', SqlInt 43), (''ORIGIN_AIRPORT'', SqlText ''JFK''),
       (''DESTINATION_AIRPORT'', SqlText ''SFO''), (''AIRLINE'', SqlText ''American Airlines''),
       (''DELAY'', SqlInt 120)],
      [(''id'', SqlInt 42), (''ORIGIN_AIRPORT'', SqlText ''JFK''),
       (''DESTINATION_AIRPORT'', SqlText ''LAX''), (''AIRLINE'', SqlText ''Delta Air Lines''),
       (''DELAY'', SqlInt 35)]]"
  by (simp add: flights_by_date_def example_store_def join_on_def where_clause_def
      order_by_desc_def sql_truth_def coalesce_def sql_eq_def sql_ge_def select_delayed_def
      nullable_def)

lemma sound_engine_healthy: "healthy sound_engine"
  by (simp add: healthy_def sound_engine_def)

lemma where_join_left:
  "filter (\<lambda>(l, r). P l) (join_on ls rs on) = join_on (filter P ls) rs on"
  by (induction ls) (auto simp: join_on_def filter_map comp_def)

lemma flight_by_id_join:
  "flight_by_id st i =
     map select_flight
       (join_on (filter (\<lambda>f. f_ID f = i) (flights st)) (airlines st)
          (\<lambda>f a. f_AIRLINE f = a_ID a))"
proof -
  have "(\<lambda>x. (case x of (f, a) \<Rightarrow> sql_eq (f_ID f) i) = Some True) =
        (\<lambda>(f :: flights_row, a :: airlines_row). f_ID f = i)"
    by (auto simp: sql_eq_def)
  then show ?thesis
    by (simp add: flight_by_id_def where_clause_def where_join_left)
qed

lemma map_fst_select_delayed:
  "map fst (select_delayed x) =
     [''id'', ''ORIGIN_AIRPORT'', ''DESTINATION_AIRPORT'', ''AIRLINE'', ''DELAY'']"
  by (cases x) (simp add: select_delayed_def)

lemma map_fst_select_flight:
  "map fst (select_flight x) =
     [''ID'', ''AIRLINE'', ''ORIGIN_AIRPORT'', ''DESTINATION_AIRPORT'', ''DEPARTURE_DELAY'',
      ''DAY'', ''MONTH'', ''YEAR'', ''airline'', ''FLIGHT_ID'', ''DELAY'']"
  by (cases x) (simp add: select_flight_def)

lemma lower_char_pairs:
  "\<forall>(c, d) \<in> set (zip ''ABCDEFGHIJKLMNOPQRSTUVWXYZ'' ''abcdefghijklmnopqrstuvwxyz'').
     lower_char c = d \<and> lower_char d = d"
  by (simp add: lower_char_def)

lemma same_ascii_letter_lower_char:
  assumes "same_ascii_letter c d"
  shows "lower_char c = lower_char d"
  using assms lower_char_pairs unfolding same_ascii_letter_def by fastforce

lemma differ_only_in_ascii_case_lower:
  assumes "differ_only_in_ascii_case s t"
  shows "lower s = lower t"
  using assms unfolding differ_only_in_ascii_case_def lower_def
  by (induction s t rule: list_all2_induct) (simp_all add: same_ascii_letter_lower_char)

lemma flights_by_airline_where:
  "flights_by_airline st airline =
     delayed_flights_where st (\<lambda>a. like (lower airline) (lower (a_AIRLINE a)))"
  by (simp add: flights_by_airline_def where_by_airline delayed_flights_where_def)








lemma example_like:
  "like (lower ''%DELTA%'') (lower ''Delta Air Lines'')"
  "\<not> like (lower ''%DELTA%'') (lower ''American Airlines'')"
  by (simp_all add: lower_def lower_char_def)

lemma example_by_carrier:
  "flights_by_airline example_store ''%DELTA%'' =
     [[(''id'', SqlInt 42), (''ORIGIN_AIRPORT'', SqlText ''JFK''),
       (''DESTINATION_AIRPORT'', SqlText ''LAX''), (''AIRLINE'', SqlText ''Delta Air Lines''),
       (''DELAY'', SqlInt 35)]]"
  by (simp add: flights_by_airline_where delayed_flights_where_def example_store_def join_on_def
      order_by_desc_def select_delayed_def nullable_def example_like)


lemma accent_small:
  "flights_by_airline accent_store [CHR ''%'', CHR ''a'', CHR 0xE9, CHR ''r'', CHR ''o'', CHR ''%''] =
     [[(''id'', SqlInt 50), (''ORIGIN_AIRPORT'', SqlText ''CDG''),
       (''DESTINATION_AIRPORT'', SqlText ''JFK''),
       (''AIRLINE'', SqlText [CHR ''A'', CHR 0xE9, CHR ''r'', CHR ''o'']),
       (''DELAY'', SqlInt 30)]]"
  by (simp add: flights_by_airline_where delayed_flights_where_def accent_store_def join_on_def
      order_by_desc_def select_delayed_def nullable_def lower_def lower_char_def)

lemma accent_capital:
  "flights_by_airline accent_store [CHR ''%'', CHR ''A'', CHR 0xC9, CHR ''R'', CHR ''O'', CHR ''%''] = []"
  by (simp add: flights_by_airline_where delayed_flights_where_def accent_store_def join_on_def
      order_by_desc_def select_delayed_def nullable_def lower_def lower_char_def)

section \<open>The delay filter and the order of the results\<close>

text \<open>
  C2. For every day, month and year given as integers, every store and every engine:
  each record the lookup by date returns carries a departure delay of 20 minutes or
  more, and the delays never rise along the returned list. The same holds of what the
  lookup by carrier returns for any string, and of what the lookup by origin returns
  for any location code.
\<close>

theorem delayed_lookups_filtered_and_sorted:
  "(fst (get_flights_by_date self w (PyInt day) (PyInt month) (PyInt year)) = Inr rows
      \<longrightarrow> delayed_desc rows) \<and>
   (fst (get_delayed_flights_by_airline self w (PyStr airline)) = Inr rows'
      \<longrightarrow> delayed_desc rows') \<and>
   (fst (get_delayed_flights_by_airport self w (PyStr airport_input)) = Inr rows''
      \<longrightarrow> delayed_desc rows'')"
proof (intro conjI impI)
  assume "fst (get_flights_by_date self w (PyInt day) (PyInt month) (PyInt year)) = Inr rows"
  then have "fst (execute_query self w QUERY_FLIGHT_BY_DATE
      [(''day'', PyInt day), (''month'', PyInt month), (''year'', PyInt year)]) = Inr rows"
    by (simp add: get_flights_by_date_def)
  from execute_query_rows [OF this template_is_query(2)] show "delayed_desc rows"
    by (auto simp: run_query_by_date delayed_desc_Nil delayed_desc_by_date)
next
  assume "fst (get_delayed_flights_by_airline self w (PyStr airline)) = Inr rows'"
  then have "fst (execute_query self w QUERY_FLIGHT_BY_AIRLINE
      [(''airline'', PyStr (''%'' @ airline @ ''%''))]) = Inr rows'"
    by (simp add: get_delayed_flights_by_airline_def)
  from execute_query_rows [OF this template_is_query(3)] show "delayed_desc rows'"
    by (auto simp: run_query_by_airline delayed_desc_Nil delayed_desc_by_airline)
next
  assume "fst (get_delayed_flights_by_airport self w (PyStr airport_input)) = Inr rows''"
  then have "fst (execute_query self w QUERY_FLIGHT_BY_ORIGIN_AIRPORT
      [(''origin_airport'', PyStr airport_input)]) = Inr rows''"
    by (simp add: get_delayed_flights_by_airport_def)
  from execute_query_rows [OF this template_is_query(4)] show "delayed_desc rows''"
    by (auto simp: run_query_by_airport delayed_desc_Nil delayed_desc_by_origin_airport)
qed

theorem delayed_lookups_filtered_and_sorted_witness:
  "fst (get_flights_by_date \<lparr>self_engine = sound_engine\<rparr> example_world (PyInt 1) (PyInt 1) (PyInt 2015)) =
     Inr [[(''id'', SqlInt 43), (''ORIGIN_AIRPORT'', SqlText ''JFK''),
           (''DESTINATION_AIRPORT'', SqlText ''SFO''), (''AIRLINE'', SqlText ''American Airlines''),
           (''DELAY'', SqlInt 120)],
          [(''id'', SqlInt 42), (''ORIGIN_AIRPORT'', SqlText ''JFK''),
           (''DESTINATION_AIRPORT'', SqlText ''LAX''), (''AIRLINE'', SqlText ''Delta Air Lines''),
           (''DELAY'', SqlInt 35)]] \<and>
   delayed_desc
     [[(''id'', SqlInt 43), (''ORIGIN_AIRPORT'', SqlText ''JFK''),
       (''DESTINATION_AIRPORT'', SqlText ''SFO''), (''AIRLINE'', SqlText ''American Airlines''),
       (''DELAY'', SqlInt 120)],
      [(''id'', SqlInt 42), (''ORIGIN_AIRPORT'', SqlText ''JFK''),
       (''DESTINATION_AIRPORT'', SqlText ''LAX''), (''AIRLINE'', SqlText ''Delta Air Lines''),
       (''DELAY'', SqlInt 35)]]"
proof -
  let ?self = "\<lparr>self_engine = sound_engine\<rparr>"
  have "get_flights_by_date ?self example_world (PyInt 1) (PyInt 1) (PyInt 2015) =
      (Inr (flights_by_date (db example_world) 1 1 2015), example_world)"
    unfolding get_flights_by_date_def Let_def
    by (rule execute_query_healthy [OF _ template_is_query(2) run_query_by_date])
       (simp add: sound_engine_healthy)
  then have rows: "fst (get_flights_by_date ?self example_world (PyInt 1) (PyInt 1) (PyInt 2015)) =
      Inr (flights_by_date example_store 1 1 2015)"
    by (simp add: example_world_def)
  with delayed_lookups_filtered_and_sorted
    [of ?self example_world 1 1 2015 "flights_by_date example_store 1 1 2015"]
  have "delayed_desc (flights_by_date example_store 1 1 2015)"
    by blast
  with rows show ?thesis
    by (simp only: example_by_date simp_thms)
qed

section \<open>Lookup by identifier\<close>

text \<open>
  C3, as the code has it. When no fault occurs: if exactly one flight row carries the
  identifier and exactly one carrier row matches that flight's carrier reference, the
  lookup returns exactly one record, whose \<^verbatim>\<open>FLIGHT_ID\<close> and \<^verbatim>\<open>ID\<close> fields equal the
  identifier. If no flight row carries the identifier, whatever the lookup returns is
  empty, and without a fault it returns the empty list.
\<close>

theorem flight_by_id_present_absent:
  "(healthy (self_engine self) \<and>
    filter (\<lambda>f. f_ID f = i) (flights (db w)) = [f] \<and>
    filter (\<lambda>a. f_AIRLINE f = a_ID a) (airlines (db w)) = [a] \<longrightarrow>
      get_flight_by_id self w (PyInt i) = (Inr [select_flight (f, a)], w) \<and>
      map_of (select_flight (f, a)) ''FLIGHT_ID'' = Some (SqlInt i) \<and>
      map_of (select_flight (f, a)) ''ID'' = Some (SqlInt i)) \<and>
   (i \<notin> f_ID ` set (flights (db w)) \<longrightarrow>
      (\<forall>rows. fst (get_flight_by_id self w (PyInt i)) = Inr rows \<longrightarrow> rows = []) \<and>
      (healthy (self_engine self) \<longrightarrow> get_flight_by_id self w (PyInt i) = (Inr [], w)))"
proof (intro conjI impI allI)
  assume h: "healthy (self_engine self) \<and>
    filter (\<lambda>f. f_ID f = i) (flights (db w)) = [f] \<and>
    filter (\<lambda>a. f_AIRLINE f = a_ID a) (airlines (db w)) = [a]"
  then have "flight_by_id (db w) i = [select_flight (f, a)]"
    by (simp add: flight_by_id_join join_on_def)
  then have "run_query (self_engine self) (db w) QUERY_FLIGHT_BY_ID [(''id'', PyInt i)] =
      Inr [select_flight (f, a)]"
    by (simp add: run_query_by_id)
  with h show "get_flight_by_id self w (PyInt i) = (Inr [select_flight (f, a)], w)"
    by (simp add: get_flight_by_id_def execute_query_healthy template_is_query(1))
  from h have "f \<in> set (filter (\<lambda>f. f_ID f = i) (flights (db w)))"
    by simp
  then have "f_ID f = i"
    by simp
  then show "map_of (select_flight (f, a)) ''FLIGHT_ID'' = Some (SqlInt i)"
    and "map_of (select_flight (f, a)) ''ID'' = Some (SqlInt i)"
    by (simp_all add: select_flight_def)
next
  assume absent: "i \<notin> f_ID ` set (flights (db w))"
  then have "filter (\<lambda>f. f_ID f = i) (flights (db w)) = []"
    by (auto simp: filter_empty_conv)
  then have none: "flight_by_id (db w) i = []"
    by (simp add: flight_by_id_join join_on_def)
  {
    fix rows
    assume "fst (get_flight_by_id self w (PyInt i)) = Inr rows"
    then have "fst (execute_query self w QUERY_FLIGHT_BY_ID [(''id'', PyInt i)]) = Inr rows"
      by (simp add: get_flight_by_id_def)
    from execute_query_rows [OF this template_is_query(1)] none show "rows = []"
      by (auto simp: run_query_by_id)
  }
  {
    assume "healthy (self_engine self)"
    with none show "get_flight_by_id self w (PyInt i) = (Inr [], w)"
      by (simp add: get_flight_by_id_def execute_query_healthy template_is_query(1) run_query_by_id)
  }
qed

theorem flight_by_id_present_absent_witness:
  "get_flight_by_id \<lparr>self_engine = sound_engine\<rparr> example_world (PyInt 42) =
     (Inr [[(''ID'', SqlInt 42), (''AIRLINE'', SqlInt 1), (''ORIGIN_AIRPORT'', SqlText ''JFK''),
            (''DESTINATION_AIRPORT'', SqlText ''LAX''), (''DEPARTURE_DELAY'', SqlInt 35),
            (''DAY'', SqlInt 1), (''MONTH'', SqlInt 1), (''YEAR'', SqlInt 2015),
            (''airline'', SqlText ''Delta Air Lines''), (''FLIGHT_ID'', SqlInt 42),
            (''DELAY'', SqlInt 35)]], example_world) \<and>
   get_flight_by_id \<lparr>self_engine = sound_engine\<rparr> example_world (PyInt 7) = (Inr [], example_world)"
proof -
  let ?self = "\<lparr>self_engine = sound_engine\<rparr>"
  let ?f = "\<lparr>f_ID = 42, f_AIRLINE = 1, f_ORIGIN_AIRPORT = ''JFK'', f_DESTINATION_AIRPORT = ''LAX'',
          f_DEPARTURE_DELAY = Some 35, f_DAY = 1, f_MONTH = 1, f_YEAR = 2015\<rparr>"
  let ?a = "\<lparr>a_ID = 1, a_AIRLINE = ''Delta Air Lines''\<rparr>"
  have present: "healthy (self_engine ?self) \<and>
      filter (\<lambda>f. f_ID f = 42) (flights (db example_world)) = [?f] \<and>
      filter (\<lambda>a. f_AIRLINE ?f = a_ID a) (airlines (db example_world)) = [?a]"
    by (simp add: sound_engine_healthy example_world_def example_store_def)
  have absent: "7 \<notin> f_ID ` set (flights (db example_world))"
    by (simp add: example_world_def example_store_def)
  from flight_by_id_present_absent [of ?self 42 example_world ?f ?a] present
  have "get_flight_by_id ?self example_world (PyInt 42) = (Inr [select_flight (?f, ?a)], example_world)"
    by blast
  moreover from flight_by_id_present_absent [of ?self 7 example_world ?f ?a] absent
  have "get_flight_by_id ?self example_world (PyInt 7) = (Inr [], example_world)"
    by (simp add: sound_engine_healthy)
  ultimately show ?thesis
    by (simp add: select_flight_def nullable_def)
qed

text \<open>
  C3 as the spec words it fails where a flight names a carrier that the carrier table
  lacks: the identifier is in the store, and the inner join leaves no record.
\<close>

theorem flight_by_id_orphan_counterexample:
  "42 \<in> f_ID ` set (flights orphan_store) \<and>
   get_flight_by_id \<lparr>self_engine = sound_engine\<rparr> \<lparr>db = orphan_store, stdout = []\<rparr> (PyInt 42) =
     (Inr [], \<lparr>db = orphan_store, stdout = []\<rparr>)"
proof -
  have "flight_by_id orphan_store 42 = []"
    by (simp add: flight_by_id_join join_on_def orphan_store_def)
  then have "run_query (self_engine \<lparr>self_engine = sound_engine\<rparr>)
      (db \<lparr>db = orphan_store, stdout = []\<rparr>) QUERY_FLIGHT_BY_ID [(''id'', PyInt 42)] = Inr []"
    by (simp add: run_query_by_id)
  from execute_query_healthy [OF _ template_is_query(1) this]
  show ?thesis
    by (simp add: get_flight_by_id_def orphan_store_def sound_engine_healthy)
qed

section \<open>Lookup by carrier\<close>

text \<open>
  C4, as the code has it. For every store, every engine and every two strings that differ
  only in the case of the letters A to Z, the lookup by carrier gives the same outcome for
  both: the same records in the same order, the same output.
\<close>

theorem carrier_lookup_case_insensitive:
  assumes "differ_only_in_ascii_case s t"
  shows "get_delayed_flights_by_airline self w (PyStr s) =
         get_delayed_flights_by_airline self w (PyStr t)"
proof -
  let ?ps = "[(''airline'', PyStr (''%'' @ s @ ''%''))]"
  let ?pt = "[(''airline'', PyStr (''%'' @ t @ ''%''))]"
  from differ_only_in_ascii_case_lower [OF assms] have "lower (''%'' @ s @ ''%'') = lower (''%'' @ t @ ''%'')"
    by (simp add: lower_def)
  then have "flights_by_airline st (''%'' @ s @ ''%'') = flights_by_airline st (''%'' @ t @ ''%'')" for st
    by (simp add: flights_by_airline_where)
  then have "run_query (self_engine self) (db w) QUERY_FLIGHT_BY_AIRLINE ?ps =
      run_query (self_engine self) (db w) QUERY_FLIGHT_BY_AIRLINE ?pt"
    by (simp only: run_query_by_airline)
  from execute_query_cong [OF template_is_query(3) this] show ?thesis
    by (simp add: get_delayed_flights_by_airline_def)
qed

theorem carrier_lookup_case_insensitive_witness:
  "differ_only_in_ascii_case ''delta'' ''DELTA'' \<and>
   get_delayed_flights_by_airline \<lparr>self_engine = sound_engine\<rparr> example_world (PyStr ''delta'') =
   get_delayed_flights_by_airline \<lparr>self_engine = sound_engine\<rparr> example_world (PyStr ''DELTA'') \<and>
   fst (get_delayed_flights_by_airline \<lparr>self_engine = sound_engine\<rparr> example_world (PyStr ''DELTA'')) =
     Inr [[(''id'', SqlInt 42), (''ORIGIN_AIRPORT'', SqlText ''JFK''),
           (''DESTINATION_AIRPORT'', SqlText ''LAX''), (''AIRLINE'', SqlText ''Delta Air Lines''),
           (''DELAY'', SqlInt 35)]]"
proof -
  let ?self = "\<lparr>self_engine = sound_engine\<rparr>"
  have d: "differ_only_in_ascii_case ''delta'' ''DELTA''"
    by (simp add: differ_only_in_ascii_case_def same_ascii_letter_def)
  have "execute_query ?self example_world QUERY_FLIGHT_BY_AIRLINE [(''airline'', PyStr ''%DELTA%'')] =
      (Inr (flights_by_airline (db example_world) ''%DELTA%''), example_world)"
    by (rule execute_query_healthy [OF _ template_is_query(3) run_query_by_airline])
       (simp add: sound_engine_healthy)
  then have "fst (get_delayed_flights_by_airline ?self example_world (PyStr ''DELTA'')) =
      Inr (flights_by_airline example_store ''%DELTA%'')"
    by (simp add: get_delayed_flights_by_airline_def example_world_def)
  with d carrier_lookup_case_insensitive [OF d, of ?self example_world] show ?thesis
    by (simp only: example_by_carrier simp_thms)
qed

text \<open>
  C4 as the spec words it, for every pair of strings that differ only in letter case, fails
  on an accented letter: \<^verbatim>\<open>lower\<close> folds neither the pattern's capital E acute nor
  anything else outside A to Z, so the small spelling finds the carrier and the capital
  spelling finds nothing.
\<close>

theorem carrier_lookup_accent_counterexample:
  "differ_only_in_letter_case [CHR ''a'', CHR 0xE9, CHR ''r'', CHR ''o'']
     [CHR ''A'', CHR 0xC9, CHR ''R'', CHR ''O''] \<and>
   get_delayed_flights_by_airline \<lparr>self_engine = sound_engine\<rparr> \<lparr>db = accent_store, stdout = []\<rparr>
     (PyStr [CHR ''a'', CHR 0xE9, CHR ''r'', CHR ''o'']) =
     (Inr [[(''id'', SqlInt 50), (''ORIGIN_AIRPORT'', SqlText ''CDG''),
            (''DESTINATION_AIRPORT'', SqlText ''JFK''),
            (''AIRLINE'', SqlText [CHR ''A'', CHR 0xE9, CHR ''r'', CHR ''o'']),
            (''DELAY'', SqlInt 30)]], \<lparr>db = accent_store, stdout = []\<rparr>) \<and>
   get_delayed_flights_by_airline \<lparr>self_engine = sound_engine\<rparr> \<lparr>db = accent_store, stdout = []\<rparr>
     (PyStr [CHR ''A'', CHR 0xC9, CHR ''R'', CHR ''O'']) =
     (Inr [], \<lparr>db = accent_store, stdout = []\<rparr>)"
proof -
  let ?self = "\<lparr>self_engine = sound_engine\<rparr>"
  let ?w = "\<lparr>db = accent_store, stdout = []\<rparr>"
  have h: "healthy (self_engine ?self)"
    by (simp add: sound_engine_healthy)
  have "differ_only_in_letter_case [CHR ''a'', CHR 0xE9, CHR ''r'', CHR ''o'']
      [CHR ''A'', CHR 0xC9, CHR ''R'', CHR ''O'']"
    by (simp add: differ_only_in_letter_case_def same_letter_def capital_letters_def
        small_letters_def)
  moreover have "get_delayed_flights_by_airline ?self ?w (PyStr [CHR ''a'', CHR 0xE9, CHR ''r'', CHR ''o'']) =
      (Inr (flights_by_airline (db ?w) (''%'' @ [CHR ''a'', CHR 0xE9, CHR ''r'', CHR ''o''] @ ''%'')), ?w)"
    unfolding get_delayed_flights_by_airline_def
    by (simp add: execute_query_healthy [OF h template_is_query(3) run_query_by_airline])
  moreover have "get_delayed_flights_by_airline ?self ?w (PyStr [CHR ''A'', CHR 0xC9, CHR ''R'', CHR ''O'']) =
      (Inr (flights_by_airline (db ?w) (''%'' @ [CHR ''A'', CHR 0xC9, CHR ''R'', CHR ''O''] @ ''%'')), ?w)"
    unfolding get_delayed_flights_by_airline_def
    by (simp add: execute_query_healthy [OF h template_is_query(3) run_query_by_airline])
  ultimately show ?thesis
    by (simp add: accent_small accent_capital)
qed



section \<open>The shape of the records\<close>

text \<open>
  C7. For every operation called with arguments of its columns' types, every store and
  every engine: the returned list is empty, or each of its records has exactly the
  columns of the select list of the operation's template, in that order, so all records
  of one result have the same columns.
\<close>

theorem records_have_projection_shape:
  assumes "well_typed rq" and "fst (call self w rq) = Inr rows"
  shows "list_all (\<lambda>r. map fst r = projection (operation_of rq)) rows"
proof -
  from assms(1) obtain ps where ps: "params_of rq = Inr ps"
    by (cases rq rule: well_typed.cases) simp_all
  with assms(2) have "fst (execute_query self w (template_of (operation_of rq)) ps) = Inr rows"
    by (simp add: call_params_of)
  from execute_query_rows [OF this is_query_template_of]
  consider "rows = []"
    | "run_query (self_engine self) (db w) (template_of (operation_of rq)) ps = Inr rows"
    by blast
  then show ?thesis
  proof cases
    case 1
    then show ?thesis by simp
  next
    case 2
    from assms(1) show ?thesis
    proof (cases rq rule: well_typed.cases)
      case (1 i)
      with 2 ps have "rows = flight_by_id (db w) i"
        by (auto simp: run_query_by_id)
      with 1 show ?thesis
        by (simp add: flight_by_id_def list_all_iff map_fst_select_flight)
    next
      case (2 d m y)
      with \<open>run_query (self_engine self) (db w) (template_of (operation_of rq)) ps = Inr rows\<close> ps
      have "rows = flights_by_date (db w) d m y"
        by (auto simp: run_query_by_date)
      with 2 show ?thesis
        by (simp add: flights_by_date_def list_all_iff map_fst_select_delayed)
    next
      case (3 s)
      with \<open>run_query (self_engine self) (db w) (template_of (operation_of rq)) ps = Inr rows\<close> ps
      have "rows = flights_by_airline (db w) (''%'' @ s @ ''%'')"
        using run_query_by_airline [of "self_engine self" "db w" "''%'' @ s @ ''%''"]
        by auto
      with 3 show ?thesis
        by (simp add: flights_by_airline_def list_all_iff map_fst_select_delayed)
    next
      case (4 s)
      with \<open>run_query (self_engine self) (db w) (template_of (operation_of rq)) ps = Inr rows\<close> ps
      have "rows = flights_by_origin_airport (db w) s"
        by (auto simp: run_query_by_airport)
      with 4 show ?thesis
        by (simp add: flights_by_origin_airport_def list_all_iff map_fst_select_delayed)
    qed (use assms(1) in simp_all)
  qed
qed

theorem records_have_projection_shape_witness:
  "fst (call \<lparr>self_engine = sound_engine\<rparr> example_world (By_date (PyInt 1) (PyInt 1) (PyInt 2015))) =
     Inr (flights_by_date example_store 1 1 2015) \<and>
   length (flights_by_date example_store 1 1 2015) = 2 \<and>
   list_all (\<lambda>r. map fst r = [''id'', ''ORIGIN_AIRPORT'', ''DESTINATION_AIRPORT'', ''AIRLINE'', ''DELAY''])
     (flights_by_date example_store 1 1 2015)"
proof -
  let ?self = "\<lparr>self_engine = sound_engine\<rparr>"
  let ?rq = "By_date (PyInt 1) (PyInt 1) (PyInt 2015)"
  have "execute_query ?self example_world QUERY_FLIGHT_BY_DATE
      [(''day'', PyInt 1), (''month'', PyInt 1), (''year'', PyInt 2015)] =
      (Inr (flights_by_date (db example_world) 1 1 2015), example_world)"
    by (rule execute_query_healthy [OF _ template_is_query(2) run_query_by_date])
       (simp add: sound_engine_healthy)
  then have rows: "fst (call ?self example_world ?rq) = Inr (flights_by_date example_store 1 1 2015)"
    by (simp add: get_flights_by_date_def example_world_def)
  have "well_typed ?rq"
    by simp
  from records_have_projection_shape [OF this rows] rows show ?thesis
    by (simp add: example_by_date)
qed

section \<open>Operations and templates\<close>

text \<open>
  C5, as the code has it. The class has four public read operations, the lookups by
  identifier, by date, by carrier and by origin; \<^verbatim>\<open>_execute_query\<close> is their private
  helper. Each operation executes one template of its own, with the parameters it builds,
  and the four are among the six distinct named templates of the module; the other two
  templates are executed by no operation.
\<close>

theorem four_operations_six_templates:
  "read_operations =
     map name_of [Get_flight_by_id, Get_flights_by_date, Get_delayed_flights_by_airline,
       Get_delayed_flights_by_airport] \<and>
   length read_operations = 4 \<and>
   (UNIV :: operation set) = {Get_flight_by_id, Get_flights_by_date,
     Get_delayed_flights_by_airline, Get_delayed_flights_by_airport} \<and>
   length templates = 6 \<and> distinct (map fst templates) \<and> distinct (map snd templates) \<and>
   map template_of [Get_flight_by_id, Get_flights_by_date, Get_delayed_flights_by_airline,
       Get_delayed_flights_by_airport] = map snd (take 4 templates) \<and>
   call self w rq =
     (case params_of rq of
        Inl e \<Rightarrow> (Inl e, w)
      | Inr ps \<Rightarrow> execute_query self w (template_of (operation_of rq)) ps)"
proof (intro conjI)
  show "read_operations =
     map name_of [Get_flight_by_id, Get_flights_by_date, Get_delayed_flights_by_airline,
       Get_delayed_flights_by_airport]"
    by (simp add: read_operations_def methods_def)
  show "length read_operations = 4"
    by (simp add: read_operations_def methods_def)
  show "(UNIV :: operation set) = {Get_flight_by_id, Get_flights_by_date,
     Get_delayed_flights_by_airline, Get_delayed_flights_by_airport}"
    by (auto intro: operation.exhaust)
  show "length templates = 6"
    by (simp add: templates_def)
  show "distinct (map fst templates)"
    by (simp add: templates_def)
  show "distinct (map snd templates)"
    by (simp add: templates_def QUERY_FLIGHT_BY_ID_def QUERY_FLIGHT_BY_DATE_def
        QUERY_FLIGHT_BY_AIRLINE_def QUERY_FLIGHT_BY_ORIGIN_AIRPORT_def
        QUERY_AVG_PERCENTAGE_DELAYED_FLIGHTS_def QUERY_LONG_LAT_def)
  show "map template_of [Get_flight_by_id, Get_flights_by_date, Get_delayed_flights_by_airline,
       Get_delayed_flights_by_airport] = map snd (take 4 templates)"
    by (simp add: templates_def)
  show "call self w rq =
     (case params_of rq of
        Inl e \<Rightarrow> (Inl e, w)
      | Inr ps \<Rightarrow> execute_query self w (template_of (operation_of rq)) ps)"
    by (rule call_params_of)
qed

theorem four_operations_six_templates_witness:
  "length read_operations = 4 \<and> length templates = 6 \<and>
   call \<lparr>self_engine = sound_engine\<rparr> example_world (By_airport (PyStr ''ATL'')) =
     execute_query \<lparr>self_engine = sound_engine\<rparr> example_world QUERY_FLIGHT_BY_ORIGIN_AIRPORT
       [(''origin_airport'', PyStr ''ATL'')]"
  using four_operations_six_templates
    [of "\<lparr>self_engine = sound_engine\<rparr>" example_world "By_airport (PyStr ''ATL'')"]
  by simp

text \<open>C5 as the spec words it: five read operations is not the count of the class.\<close>

theorem five_operations_counterexample: "length read_operations \<noteq> 5"
  by (simp add: read_operations_def methods_def)

end
